theory Spec2Isabelle
  imports Complex_Main "HOL-Library.Multiset"
begin

section \<open>Numbers and strings of the Python source\<close>

text \<open>
  The Python sources compute with \<open>float\<close> and \<open>int\<close> values. Both are embedded in
  \<^typ>\<open>real\<close> (integer-only quantities in \<^typ>\<open>int\<close>): every numeric input is taken to be
  finite and every operation exact. Not-a-number, infinities and binary rounding of
  intermediate results are outside this embedding. The classifier path of \<open>app.py\<close>, whose
  probability vector may hold any float, has a type of float values of its own below.

  \<open>round(x)\<close> of a float rounds to the nearest integer, a tie going to the even neighbour.
\<close>

definition py_round :: "real \<Rightarrow> int" where
  "py_round x =
     (let f = \<lfloor>x\<rfloor>; d = x - of_int f
      in if d < 1/2 then f else if 1/2 < d then f + 1 else if even f then f else f + 1)"

text \<open>
  \<open>str.lower()\<close> on the letters \<open>A\<close> to \<open>Z\<close>; every other character is kept. Strings are
  lists of 8-bit characters here, so the case mapping of characters beyond ASCII is not
  part of the embedding.
\<close>

definition lower_char :: "char \<Rightarrow> char" where
  "lower_char c =
     (let v = (of_char c :: nat) in if 65 \<le> v \<and> v \<le> 90 then char_of (v + 32) else c)"

definition lower :: "string \<Rightarrow> string" where
  "lower s = map lower_char s"

text \<open>
  \<open>sorted(xs, key=f, reverse=True)\<close>: descending by key, elements with equal keys keep
  their order in \<open>xs\<close>.
\<close>

definition sorted_reverse :: "('a \<Rightarrow> 'k::{linorder, uminus}) \<Rightarrow> 'a list \<Rightarrow> 'a list" where
  "sorted_reverse f xs = sort_key (\<lambda>x. - f x) xs"


section \<open>The rule-based predictor (\<open>simple_predictor.py\<close>)\<close>

record requirement =
  n_range :: "real \<times> real"
  p_range :: "real \<times> real"
  k_range :: "real \<times> real"
  temp_range :: "real \<times> real"
  rainfall_min :: real
  ph_range :: "real \<times> real"
  soils :: "string list"
  seasons :: "string list"

text \<open>
  The dictionary \<open>crops_db\<close>, in its insertion order (the order in which Python iterates it).
\<close>

definition crops_db :: "(string \<times> requirement) list" where
  "crops_db =
    [(''Rice'',
       \<lparr>n_range = (80, 120), p_range = (40, 60), k_range = (40, 60),
        temp_range = (20, 35), rainfall_min = 1000, ph_range = (5.5, 7.0),
        soils = [''Clayey'', ''Loamy''], seasons = [''Kharif'', ''Monsoon'']\<rparr>),
     (''Wheat'',
       \<lparr>n_range = (100, 140), p_range = (40, 80), k_range = (40, 80),
        temp_range = (15, 25), rainfall_min = 500, ph_range = (6.0, 7.5),
        soils = [''Loamy'', ''Clayey''], seasons = [''Rabi'', ''Winter'']\<rparr>),
     (''Maize'',
       \<lparr>n_range = (60, 100), p_range = (30, 60), k_range = (30, 60),
        temp_range = (20, 30), rainfall_min = 600, ph_range = (5.5, 7.5),
        soils = [''Loamy'', ''Sandy'', ''Black''], seasons = [''Kharif'', ''Summer'']\<rparr>),
     (''Cotton'',
       \<lparr>n_range = (80, 120), p_range = (40, 80), k_range = (40, 80),
        temp_range = (21, 35), rainfall_min = 600, ph_range = (6.0, 8.0),
        soils = [''Black'', ''Alluvial''], seasons = [''Kharif'', ''Summer'']\<rparr>),
     (''Millets'',
       \<lparr>n_range = (40, 80), p_range = (20, 40), k_range = (20, 40),
        temp_range = (25, 35), rainfall_min = 300, ph_range = (5.0, 7.5),
        soils = [''Sandy'', ''Red'', ''Loamy''], seasons = [''Kharif'', ''Summer'']\<rparr>),
     (''Pulses'',
       \<lparr>n_range = (20, 60), p_range = (40, 80), k_range = (20, 60),
        temp_range = (20, 30), rainfall_min = 400, ph_range = (6.0, 7.5),
        soils = [''Loamy'', ''Black'', ''Red''], seasons = [''Rabi'', ''Winter'']\<rparr>),
     (''Sugarcane'',
       \<lparr>n_range = (80, 150), p_range = (40, 80), k_range = (80, 150),
        temp_range = (21, 35), rainfall_min = 1000, ph_range = (6.0, 7.5),
        soils = [''Loamy'', ''Black''], seasons = [''Whole Year'', ''Monsoon'']\<rparr>),
     (''Jute'',
       \<lparr>n_range = (60, 100), p_range = (30, 60), k_range = (30, 60),
        temp_range = (24, 35), rainfall_min = 1200, ph_range = (6.0, 7.5),
        soils = [''Alluvial'', ''Clayey''], seasons = [''Kharif'', ''Monsoon'']\<rparr>)]"

text \<open>
  \<open>r[0] <= x <= r[1]\<close> and \<open>sum(r)/2\<close> for a pair \<open>r\<close>.
\<close>

definition in_range :: "real \<times> real \<Rightarrow> real \<Rightarrow> bool" where
  "in_range r x \<longleftrightarrow> fst r \<le> x \<and> x \<le> snd r"

definition midpoint :: "real \<times> real \<Rightarrow> real" where
  "midpoint r = (fst r + snd r) / 2"

text \<open>
  The body of the loop over \<open>crops_db\<close>: the points one crop collects, before the
  \<open>min(100, score)\<close> of the last line of the body. Each summand is one \<open>if\<close>/\<open>elif\<close>
  statement of the source, in the source's order.
\<close>

definition score :: "requirement \<Rightarrow> real \<Rightarrow> real \<Rightarrow> real \<Rightarrow> real \<Rightarrow> real \<Rightarrow> real
    \<Rightarrow> string \<Rightarrow> string \<Rightarrow> int" where
  "score req n p k temperature ph rainfall soil_type season =
     (if in_range (n_range req) n then 15 else 0)
   + (if in_range (p_range req) p then 12 else 0)
   + (if in_range (k_range req) k then 13 else 0)
   + (if in_range (temp_range req) temperature then 20
      else if \<bar>temperature - midpoint (temp_range req)\<bar> < 5 then 10 else 0)
   + (if rainfall \<ge> rainfall_min req then 15
      else if rainfall \<ge> rainfall_min req * 0.7 then 8 else 0)
   + (if in_range (ph_range req) ph then 10
      else if \<bar>ph - midpoint (ph_range req)\<bar> < 0.5 then 5 else 0)
   + (if soil_type \<in> set (soils req) then 10 else 0)
   + (if season \<in> set (seasons req) then 5 else 0)"

text \<open>
  The dictionary \<open>scores\<close> after the loop, as an association list in insertion order.
\<close>

definition scores :: "real \<Rightarrow> real \<Rightarrow> real \<Rightarrow> real \<Rightarrow> real \<Rightarrow> real
    \<Rightarrow> string \<Rightarrow> string \<Rightarrow> (string \<times> int) list" where
  "scores n p k temperature ph rainfall soil_type season =
     map (\<lambda>(crop, req).
            (crop, min 100 (score req n p k temperature ph rainfall soil_type season)))
         crops_db"

text \<open>
  The dictionaries handled by the predictor and by the climate risk engine: a crop with
  its confidence, and the key \<open>risk_adjusted_confidence\<close> that the engine adds (absent
  before). Further keys that a caller stores in the dictionary live in the record's
  extension.
\<close>

record crop =
  name :: string
  confidence :: real
  risk_adjusted_confidence :: "real option"

text \<open>
  \<open>predict_crops_simple\<close>. The arguments \<open>humidity\<close> and \<open>region\<close> are not read by the
  source. \<open>round(conf, 2)\<close> of an \<open>int\<close> is that \<open>int\<close>.
\<close>

definition sorted_crops :: "real \<Rightarrow> real \<Rightarrow> real \<Rightarrow> real \<Rightarrow> real \<Rightarrow> real
    \<Rightarrow> string \<Rightarrow> string \<Rightarrow> (string \<times> int) list" where
  "sorted_crops n p k temperature ph rainfall soil_type season =
     take 3 (sorted_reverse snd (scores n p k temperature ph rainfall soil_type season))"

definition predict_crops_simple :: "real \<Rightarrow> real \<Rightarrow> real \<Rightarrow> real \<Rightarrow> real \<Rightarrow> real \<Rightarrow> real
    \<Rightarrow> string \<Rightarrow> string \<Rightarrow> string \<Rightarrow> crop list" where
  "predict_crops_simple n p k temperature humidity ph rainfall soil_type season region =
     map (\<lambda>(crop, conf).
            \<lparr>name = crop, confidence = of_int conf, risk_adjusted_confidence = None\<rparr>)
         (sorted_crops n p k temperature ph rainfall soil_type season)"


section \<open>The climate risk engine (\<open>modules/weather.py\<close>)\<close>

text \<open>
  The engine holds an API key (\<open>None\<close> when neither the constructor argument nor the
  environment supplies one). The weather service is outside the program: \<open>requests.get\<close>
  is a parameter \<open>net\<close> that maps the queried city and the key to a response, or to
  \<open>None\<close> when the call raises (the source catches every exception). A response with
  status 200 is taken to carry a document with the entries \<open>main.temp\<close> and
  \<open>main.humidity\<close>, the only ones the source reads.
\<close>

record weather =
  main_temp :: real
  main_humidity :: real

record response =
  status_code :: int
  json :: weather

record climate_risk_engine =
  api_key :: "string option"

type_synonym network = "string \<Rightarrow> string \<Rightarrow> response option"

definition get_weather_data :: "network \<Rightarrow> climate_risk_engine \<Rightarrow> string \<Rightarrow> weather option" where
  "get_weather_data net self city =
     (case api_key self of
        None \<Rightarrow> None
      | Some key \<Rightarrow>
          if key = [] then None
          else (case net city key of
                  None \<Rightarrow> None
                | Some r \<Rightarrow> if status_code r = 200 then Some (json r) else None))"

record risk_scores =
  drought_risk :: int
  flood_risk :: int
  current_temp :: real
  current_humidity :: real

text \<open>
  The local variables \<open>drought_score\<close> (after the conditional \<open>+= 20\<close>) and \<open>flood_score\<close>
  of \<open>calculate_risk_scores\<close>.
\<close>

definition drought_score :: "real \<Rightarrow> real \<Rightarrow> real \<Rightarrow> real" where
  "drought_score temp humidity hist_rainfall =
     (let s = max 0 (temp - 25) * 2 + max 0 (100 - humidity) * 0.5
      in if hist_rainfall < 500 then s + 20 else s)"

definition flood_score :: "real \<Rightarrow> real \<Rightarrow> real" where
  "flood_score hist_rainfall humidity = hist_rainfall / 50 + humidity * 0.3"

definition calculate_risk_scores ::
    "network \<Rightarrow> climate_risk_engine \<Rightarrow> string \<Rightarrow> real \<Rightarrow> real \<Rightarrow> risk_scores" where
  "calculate_risk_scores net self city hist_rainfall hist_temp =
     (let weather = (if city = [] then None else get_weather_data net self city);
          temp = (case weather of Some w \<Rightarrow> main_temp w | None \<Rightarrow> hist_temp);
          humidity = (case weather of Some w \<Rightarrow> main_humidity w | None \<Rightarrow> 50)
      in \<lparr>drought_risk = min 100 (py_round (drought_score temp humidity hist_rainfall)),
          flood_risk = min 100 (py_round (flood_score hist_rainfall humidity)),
          current_temp = temp,
          current_humidity = humidity\<rparr>)"

text \<open>
  \<open>get_risk_adjusted_crops\<close>. The value of \<open>score_adj\<close> at the end of one loop iteration:
  the drought branch assigns first, the flood branch assigns after it.
\<close>

definition score_adj :: "int \<Rightarrow> int \<Rightarrow> string \<Rightarrow> int" where
  "score_adj d_risk f_risk nm =
     (let adj = 0;
          adj = (if d_risk > 60
                 then (if lower nm \<in> set [''millets'', ''pulses'', ''maize''] then 15
                       else if lower nm \<in> set [''rice'', ''cotton''] then - 20
                       else adj)
                 else adj);
          adj = (if f_risk > 70
                 then (if lower nm \<in> set [''rice''] then 20
                       else if lower nm \<in> set [''pulses'', ''maize''] then - 25
                       else adj)
                 else adj)
      in adj)"

text \<open>
  One loop iteration: the assignment to the key \<open>risk_adjusted_confidence\<close> of the crop's
  dictionary. All other keys are left as they are.
\<close>

definition adjust :: "risk_scores \<Rightarrow> 'a crop_scheme \<Rightarrow> 'a crop_scheme" where
  "adjust rs c =
     c\<lparr>risk_adjusted_confidence :=
         Some (max 0 (min 100
           (confidence c + of_int (score_adj (drought_risk rs) (flood_risk rs) (name c)))))\<rparr>"

text \<open>
  The list \<open>adjusted\<close> after the loop. The source updates the dictionaries of
  \<open>predictions\<close> in place, so this is also what the caller's list holds afterwards.
\<close>

definition adjusted :: "'a crop_scheme list \<Rightarrow> risk_scores \<Rightarrow> 'a crop_scheme list" where
  "adjusted predictions rs = map (adjust rs) predictions"

definition get_risk_adjusted_crops ::
    "'a crop_scheme list \<Rightarrow> risk_scores \<Rightarrow> 'a crop_scheme list" where
  "get_risk_adjusted_crops predictions rs =
     sorted_reverse (\<lambda>x. the (risk_adjusted_confidence x)) (adjusted predictions rs)"


section \<open>The classifier path of \<open>predictcrop\<close> (\<open>app.py\<close>)\<close>












section \<open>Facts about rounding and sorting\<close>

lemma py_round_ge: "of_int m \<le> x \<Longrightarrow> m \<le> py_round x"
proof -
  assume "of_int m \<le> x"
  then have "m \<le> \<lfloor>x\<rfloor>" by (simp add: le_floor_iff)
  then show ?thesis by (simp add: py_round_def Let_def)
qed

lemma py_round_le: "x \<le> of_int m \<Longrightarrow> py_round x \<le> m"
proof -
  assume a: "x \<le> of_int m"
  have f: "\<lfloor>x\<rfloor> \<le> m" using a by (simp add: floor_le_iff)
  show ?thesis
  proof (cases "x - of_int \<lfloor>x\<rfloor> < 1/2")
    case True
    with f show ?thesis by (simp add: py_round_def Let_def)
  next
    case False
    then have "of_int \<lfloor>x\<rfloor> < x" by linarith
    with a have "of_int \<lfloor>x\<rfloor> < (of_int m :: real)" by linarith
    then have "\<lfloor>x\<rfloor> < m" by simp
    then show ?thesis by (simp add: py_round_def Let_def)
  qed
qed

lemma mset_sorted_reverse: "mset (sorted_reverse f xs) = mset xs"
  by (simp add: sorted_reverse_def)

lemma length_sorted_reverse: "length (sorted_reverse f xs) = length xs"
  by (simp add: sorted_reverse_def)

lemma sorted_sorted_reverse: "sorted (map (\<lambda>x. - f x) (sorted_reverse f xs))"
  by (simp add: sorted_reverse_def)

lemma sorted_reverse_split:
  assumes "a \<in> set (take m (sorted_reverse f xs))"
    and "b \<in> set (drop m (sorted_reverse f xs))"
  shows "f b \<le> (f a :: 'k :: {linordered_ab_group_add})"
proof -
  let ?ys = "sorted_reverse f xs"
  have "sorted (map (\<lambda>x. - f x) (take m ?ys @ drop m ?ys))"
    using sorted_sorted_reverse [of f xs] by simp
  then have "\<forall>x\<in>set (take m ?ys). \<forall>y\<in>set (drop m ?ys). - f x \<le> - f y"
    unfolding map_append sorted_append by auto
  with assms show ?thesis by auto
qed

lemma sorted_wrt_take_sorted_reverse:
  "sorted_wrt (\<lambda>a b. f b \<le> (f a :: 'k :: {linordered_ab_group_add}))
     (take m (sorted_reverse f xs))"
proof -
  have "sorted (map (\<lambda>x. - f x) (take m (sorted_reverse f xs)))"
    using sorted_sorted_reverse [of f xs] by (simp add: take_map [symmetric] sorted_wrt_take)
  then show ?thesis by (simp add: sorted_map)
qed


section \<open>The rule-based predictor: scores\<close>

lemma distinct_crops_db: "distinct (map fst crops_db)"
  by (simp add: crops_db_def)

lemma length_scores: "length (scores n p k t ph rf so se) = 8"
  by (simp add: scores_def crops_db_def)

lemma map_fst_scores: "map fst (scores n p k t ph rf so se) = map fst crops_db"
  by (simp add: scores_def case_prod_unfold comp_def)

lemma map_of_scores:
  "map_of (scores n p k t ph rf so se) crop =
     map_option (\<lambda>req. min 100 (score req n p k t ph rf so se)) (map_of crops_db crop)"
  unfolding scores_def by (simp add: map_of_map)

lemma score_le_100: "score req n p k t ph rf so se \<le> 100"
  by (simp add: score_def)

lemma score_100_admissible:
  assumes "100 \<le> score req n p k t ph rf so se"
  shows "so \<in> set (soils req) \<and> se \<in> set (seasons req)"
proof (rule ccontr)
  assume "\<not> ?thesis"
  then have "score req n p k t ph rf so se \<le> 95"
    by (auto simp add: score_def)
  with assms show False by simp
qed

lemma admissible_at_most_3:
  "length (filter (\<lambda>(c, r). so \<in> set (soils r) \<and> se \<in> set (seasons r)) crops_db) \<le> 3"
  by (simp add: crops_db_def)


lemma top_scorer_in_take_3:
  fixes sc :: "(string \<times> int) list"
  assumes mem: "(c, 100) \<in> set sc"
    and few: "length (filter (\<lambda>x. 100 \<le> snd x) sc) \<le> 3"
  shows "(c, 100) \<in> set (take 3 (sorted_reverse snd sc))"
proof (rule ccontr)
  let ?ys = "sorted_reverse snd sc"
  let ?P = "\<lambda>x :: string \<times> int. 100 \<le> snd x"
  assume no: "(c, 100) \<notin> set (take 3 ?ys)"
  have "(c, 100) \<in> set ?ys"
    using mem mset_sorted_reverse [of snd sc] by (metis set_mset_mset)
  moreover have "set ?ys = set (take 3 ?ys) \<union> set (drop 3 ?ys)"
    by (simp only: set_append [symmetric] append_take_drop_id)
  ultimately have d: "(c, 100) \<in> set (drop 3 ?ys)"
    using no by blast
  then have len: "3 < length ?ys"
    by (cases "3 < length ?ys") auto
  have "\<forall>a\<in>set (take 3 ?ys). ?P a"
    using sorted_reverse_split [OF _ d] by fastforce
  then have "filter ?P (take 3 ?ys) = take 3 ?ys" by simp
  then have a: "length (filter ?P (take 3 ?ys)) = 3"
    using len by simp
  have "(c, 100) \<in> set (filter ?P (drop 3 ?ys))"
    using d by simp
  then have b: "0 < length (filter ?P (drop 3 ?ys))"
    by (cases "filter ?P (drop 3 ?ys)") auto
  have "length (filter ?P ?ys) = length (filter ?P (take 3 ?ys @ drop 3 ?ys))" by simp
  also have "\<dots> = length (filter ?P (take 3 ?ys)) + length (filter ?P (drop 3 ?ys))"
    by (simp only: filter_append length_append)
  finally have "3 < length (filter ?P ?ys)"
    using a b by simp
  moreover have "length (filter ?P ?ys) = length (filter ?P sc)"
  proof -
    have "mset (filter ?P ?ys) = mset (filter ?P sc)"
      by (simp only: mset_filter mset_sorted_reverse)
    then have "size (mset (filter ?P ?ys)) = size (mset (filter ?P sc))"
      by (rule arg_cong)
    then show ?thesis by (simp only: size_mset)
  qed
  ultimately show False using few by simp
qed

lemma full_scores_at_most_3:
  "length (filter (\<lambda>x. 100 \<le> snd x) (scores n p k t ph rf so se)) \<le> 3"
proof -
  let ?A = "\<lambda>(c :: string, r). so \<in> set (soils r) \<and> se \<in> set (seasons r)"
  let ?f = "\<lambda>(crop :: string, req). (crop, min 100 (score req n p k t ph rf so se))"
  have "length (filter (\<lambda>x. 100 \<le> snd x) (scores n p k t ph rf so se))
      = length (filter ((\<lambda>x. 100 \<le> snd x) \<circ> ?f) crops_db)"
    by (simp add: scores_def filter_map)
  also have "\<dots> \<le> length (filter ?A crops_db)"
  proof -
    have "((\<lambda>x. 100 \<le> snd x) \<circ> ?f) x \<longrightarrow> ?A x" for x
      using score_100_admissible [of "snd x" n p k t ph rf so se]
      by (cases x) auto
    then have "filter ((\<lambda>x. 100 \<le> snd x) \<circ> ?f) crops_db
        = filter ((\<lambda>x. 100 \<le> snd x) \<circ> ?f) (filter ?A crops_db)"
      by (auto intro!: filter_cong)
    then have "length (filter ((\<lambda>x. 100 \<le> snd x) \<circ> ?f) crops_db)
        = length (filter ((\<lambda>x. 100 \<le> snd x) \<circ> ?f) (filter ?A crops_db))"
      by (rule arg_cong)
    also have "\<dots> \<le> length (filter ?A crops_db)"
      by (rule length_filter_le)
    finally show ?thesis .
  qed
  also have "\<dots> \<le> 3" by (rule admissible_at_most_3)
  finally show ?thesis .
qed

text \<open>
  Claim C1. When the inputs meet the whole requirement profile of a crop of the catalog
  (N, P, K, temperature and pH inside the closed ranges, rainfall at least the crop's
  minimum, soil type and season among the admissible ones), the loop of
  \<open>predict_crops_simple\<close> collects exactly 100 points for that crop and stores the score
  100 under the crop's name; and the crop is among the three returned, with confidence 100.
\<close>

theorem full_profile_scores_100:
  assumes "(crop, req) \<in> set crops_db"
    and "in_range (n_range req) n" and "in_range (p_range req) p"
    and "in_range (k_range req) k" and "in_range (temp_range req) temperature"
    and "in_range (ph_range req) ph" and "rainfall \<ge> rainfall_min req"
    and "soil_type \<in> set (soils req)" and "season \<in> set (seasons req)"
  shows "score req n p k temperature ph rainfall soil_type season = 100
       \<and> map_of (scores n p k temperature ph rainfall soil_type season) crop = Some 100
       \<and> \<lparr>name = crop, confidence = 100, risk_adjusted_confidence = None\<rparr>
           \<in> set (predict_crops_simple n p k temperature humidity ph rainfall
                    soil_type season region)"
proof -
  let ?sc = "scores n p k temperature ph rainfall soil_type season"
  have s: "score req n p k temperature ph rainfall soil_type season = 100"
    using assms(2-) by (simp add: score_def)
  have "map_of crops_db crop = Some req"
    using distinct_crops_db assms(1) by (rule map_of_is_SomeI)
  with s have m: "map_of ?sc crop = Some 100"
    by (simp add: map_of_scores)
  then have "(crop, 100) \<in> set ?sc"
    by (rule map_of_SomeD)
  then have "(crop, 100) \<in> set (take 3 (sorted_reverse snd ?sc))"
    using full_scores_at_most_3 by (rule top_scorer_in_take_3)
  then have "(\<lambda>(crop, conf).
        \<lparr>name = crop, confidence = real_of_int conf, risk_adjusted_confidence = None\<rparr>)
      (crop, 100) \<in> set (predict_crops_simple n p k temperature humidity ph rainfall
                    soil_type season region)"
    unfolding predict_crops_simple_def sorted_crops_def set_map by (rule imageI)
  with s m show ?thesis by simp
qed

theorem full_profile_scores_100_witness:
  "(''Rice'', snd (hd crops_db)) \<in> set crops_db
   \<and> score (snd (hd crops_db)) 100 50 50 25 6 1500 ''Loamy'' ''Kharif'' = 100
   \<and> map_of (scores 100 50 50 25 6 1500 ''Loamy'' ''Kharif'') ''Rice'' = Some 100
   \<and> \<lparr>name = ''Rice'', confidence = 100, risk_adjusted_confidence = None\<rparr>
       \<in> set (predict_crops_simple 100 50 50 25 60 6 1500 ''Loamy'' ''Kharif'' ''North'')"
  using full_profile_scores_100
    [of "''Rice''" "snd (hd crops_db)" 100 50 50 25 6 1500 "''Loamy''" "''Kharif''"
        60 "''North''"]
  by (simp add: crops_db_def in_range_def)

text \<open>
  Claim C2, as stated, fails: the predictor does not return a score for every crop of the
  catalog. For the input below it returns Rice, Maize and Wheat only; the other five crops
  of \<open>crops_db\<close>, Jute among them, are not in the output.
\<close>

theorem predict_crops_simple_drops_crops:
  "predict_crops_simple 100 50 50 25 60 6 1500 ''Loamy'' ''Kharif'' ''North''
     = [\<lparr>name = ''Rice'', confidence = 100, risk_adjusted_confidence = None\<rparr>,
        \<lparr>name = ''Maize'', confidence = 100, risk_adjusted_confidence = None\<rparr>,
        \<lparr>name = ''Wheat'', confidence = 95, risk_adjusted_confidence = None\<rparr>]
   \<and> ''Jute'' \<in> set (map fst crops_db)"
  by (simp add: predict_crops_simple_def sorted_crops_def sorted_reverse_def scores_def
      crops_db_def score_def in_range_def midpoint_def)

text \<open>
  Claim C2, amended. For every input the predictor scores every crop of the catalog once,
  and returns exactly three of them, in descending order of score: the returned three
  together with the crops left out are all the scored crops, and no crop left out has a
  higher score than a returned one. The selection of the best three is made by the
  predictor itself.
\<close>

theorem predict_crops_simple_top_3:
  fixes n p k temperature humidity ph rainfall :: real
    and soil_type season region :: string
  defines "sc \<equiv> scores n p k temperature ph rainfall soil_type season"
    and "out \<equiv>
      predict_crops_simple n p k temperature humidity ph rainfall soil_type season region"
  shows "map fst sc = map fst crops_db \<and> length out = 3
       \<and> sorted_wrt (\<lambda>a b. confidence b \<le> confidence a) out
       \<and> (\<exists>rest. mset (map (\<lambda>c. (name c, confidence c)) out) + mset rest
                    = mset (map (\<lambda>(c, s). (c, real_of_int s)) sc)
                \<and> (\<forall>c\<in>set out. \<forall>r\<in>set rest. snd r \<le> confidence c))"
proof -
  let ?ys = "sorted_reverse snd sc"
  let ?conv = "\<lambda>(c, s). (c, real_of_int s)"
  let ?mk = "\<lambda>(crop, conf).
    \<lparr>name = crop, confidence = real_of_int conf, risk_adjusted_confidence = None\<rparr>"
  have out: "out = map ?mk (take 3 ?ys)"
    by (simp add: out_def predict_crops_simple_def sorted_crops_def sc_def)
  have 1: "map fst sc = map fst crops_db"
    by (simp add: sc_def map_fst_scores)
  have 2: "length out = 3"
    by (simp add: out length_sorted_reverse sc_def length_scores)
  have "sorted_wrt (\<lambda>a b. snd b \<le> snd a) (take 3 ?ys)"
    by (rule sorted_wrt_take_sorted_reverse)
  then have 3: "sorted_wrt (\<lambda>a b. confidence b \<le> confidence a) out"
    by (simp add: out sorted_wrt_map case_prod_unfold)
  have nc: "map (\<lambda>c. (name c, confidence c)) out = map ?conv (take 3 ?ys)"
    by (simp add: out case_prod_unfold comp_def)
  have "mset (map ?conv (take 3 ?ys)) + mset (map ?conv (drop 3 ?ys)) = mset (map ?conv ?ys)"
    by (metis append_take_drop_id map_append mset_append)
  also have "\<dots> = mset (map ?conv sc)"
    using mset_sorted_reverse [of snd sc] by (metis mset_map)
  finally have 4:
    "mset (map (\<lambda>c. (name c, confidence c)) out) + mset (map ?conv (drop 3 ?ys))
      = mset (map ?conv sc)"
    by (simp only: nc)
  have 5: "\<forall>c\<in>set out. \<forall>r\<in>set (map ?conv (drop 3 ?ys)). snd r \<le> confidence c"
  proof (intro ballI)
    fix c r
    assume "c \<in> set out" and "r \<in> set (map ?conv (drop 3 ?ys))"
    then obtain a b where a: "a \<in> set (take 3 ?ys)" "c = ?mk a"
      and b: "b \<in> set (drop 3 ?ys)" "r = ?conv b"
      unfolding out by auto
    from a(1) b(1) have "snd b \<le> snd a" by (rule sorted_reverse_split)
    with a(2) b(2) show "snd r \<le> confidence c"
      by (simp add: case_prod_unfold)
  qed
  from 1 2 3 4 5 show ?thesis by blast
qed

theorem predict_crops_simple_top_3_witness:
  "length (predict_crops_simple 80 40 40 27 60 6 1500 ''Loamy'' ''Kharif'' ''South'') = 3
   \<and> sorted_wrt (\<lambda>a b. confidence b \<le> confidence a)
       (predict_crops_simple 80 40 40 27 60 6 1500 ''Loamy'' ''Kharif'' ''South'')
   \<and> map fst (scores 80 40 40 27 6 1500 ''Loamy'' ''Kharif'')
       = [''Rice'', ''Wheat'', ''Maize'', ''Cotton'', ''Millets'', ''Pulses'', ''Sugarcane'',
          ''Jute'']"
  using predict_crops_simple_top_3
    [of 80 40 40 27 6 1500 "''Loamy''" "''Kharif''" 60 "''South''"]
  by (simp add: crops_db_def)


section \<open>The climate risk engine: risk scores\<close>

lemma get_weather_data_None_iff:
  "get_weather_data net self city = None \<longleftrightarrow>
     api_key self = None \<or> api_key self = Some []
     \<or> (\<exists>key. api_key self = Some key \<and>
           (net city key = None \<or> (\<exists>r. net city key = Some r \<and> status_code r \<noteq> 200)))"
  by (auto simp add: get_weather_data_def split: option.splits if_splits)

lemma drought_score_nonneg: "0 \<le> drought_score temp humidity hist_rainfall"
  by (simp add: drought_score_def Let_def)

text \<open>
  The part of the range invariant that the source keeps: the drought risk lies in
  \<open>[0, 100]\<close>, and the flood risk is at most 100.
\<close>

lemma drought_risk_bounds:
  "0 \<le> drought_risk (calculate_risk_scores net self city hist_rainfall hist_temp)
   \<and> drought_risk (calculate_risk_scores net self city hist_rainfall hist_temp) \<le> 100"
  using py_round_ge [of 0] drought_score_nonneg
  by (simp add: calculate_risk_scores_def Let_def)

lemma flood_risk_le_100:
  "flood_risk (calculate_risk_scores net self city hist_rainfall hist_temp) \<le> 100"
  by (simp add: calculate_risk_scores_def Let_def)

text \<open>
  Claim C3 asks for both risks in \<open>[0, 100]\<close> on every input, a negative historical
  rainfall included. The source bounds the rounded flood score from above only
  (\<open>min(100, round(flood_score))\<close>): with no location, a historical rainfall of -5000 mm
  and 30 degrees, the fallback humidity 50 gives the flood score -100 + 15, and the
  returned \<open>flood_risk\<close> is -85.
\<close>

theorem flood_risk_negative:
  "flood_risk (calculate_risk_scores net self [] (- 5000) 30) = - 85"
  by (simp add: calculate_risk_scores_def flood_score_def py_round_def Let_def)

text \<open>
  Claim C4. With no live weather (no location given, or the lookup returns nothing), a
  historical rainfall of 300 mm and a historical temperature of 30 degrees, the engine
  returns \<open>drought_risk = 55\<close> and \<open>flood_risk = 21\<close>, computed from the historical
  temperature and the fallback humidity 50.
\<close>

theorem fallback_example:
  assumes "city = [] \<or> get_weather_data net self city = None"
  shows "calculate_risk_scores net self city 300 30
           = \<lparr>drought_risk = 55, flood_risk = 21, current_temp = 30, current_humidity = 50\<rparr>"
  using assms
  by (auto simp add: calculate_risk_scores_def drought_score_def flood_score_def
      py_round_def Let_def)

theorem fallback_example_witness:
  "get_weather_data (\<lambda>city key. None) \<lparr>api_key = None\<rparr> ''Unknown'' = None
   \<and> calculate_risk_scores (\<lambda>city key. None) \<lparr>api_key = None\<rparr> ''Unknown'' 300 30
       = \<lparr>drought_risk = 55, flood_risk = 21, current_temp = 30, current_humidity = 50\<rparr>"
  using fallback_example [of "''Unknown''" "\<lambda>city key. None" "\<lparr>api_key = None\<rparr>"]
  by (simp add: get_weather_data_def)

text \<open>
  Claim C9. Whenever no live weather is available (no location given, or the lookup
  returns nothing: no API key, a failed request, a status other than 200), the humidity is
  the fallback 50, which adds the fixed 25 points to the drought score; the returned
  \<open>drought_risk\<close> is then at least 25, whatever the historical temperature and rainfall.
\<close>

theorem fallback_drought_at_least_25:
  assumes "city = [] \<or> get_weather_data net self city = None"
  shows "drought_score hist_temp 50 hist_rainfall
           = max 0 (hist_temp - 25) * 2 + 25 + (if hist_rainfall < 500 then 20 else 0)
       \<and> drought_risk (calculate_risk_scores net self city hist_rainfall hist_temp)
           = min 100 (py_round (drought_score hist_temp 50 hist_rainfall))
       \<and> 25 \<le> drought_risk (calculate_risk_scores net self city hist_rainfall hist_temp)"
proof -
  have 1: "drought_score hist_temp 50 hist_rainfall
           = max 0 (hist_temp - 25) * 2 + 25 + (if hist_rainfall < 500 then 20 else 0)"
    by (simp add: drought_score_def Let_def)
  have 2: "drought_risk (calculate_risk_scores net self city hist_rainfall hist_temp)
           = min 100 (py_round (drought_score hist_temp 50 hist_rainfall))"
    using assms by (auto simp add: calculate_risk_scores_def Let_def)
  have "of_int 25 \<le> drought_score hist_temp 50 hist_rainfall"
    unfolding 1 by simp
  then have "25 \<le> py_round (drought_score hist_temp 50 hist_rainfall)"
    by (rule py_round_ge)
  with 1 2 show ?thesis by simp
qed

theorem fallback_drought_at_least_25_witness:
  "get_weather_data
      (\<lambda>city key. Some \<lparr>status_code = 404, json = \<lparr>main_temp = 0, main_humidity = 0\<rparr>\<rparr>)
      \<lparr>api_key = Some ''k''\<rparr> ''Atlantis'' = None
   \<and> drought_risk (calculate_risk_scores
        (\<lambda>city key. Some \<lparr>status_code = 404, json = \<lparr>main_temp = 0, main_humidity = 0\<rparr>\<rparr>)
        \<lparr>api_key = Some ''k''\<rparr> ''Atlantis'' 1200 10) = 25"
  using fallback_drought_at_least_25 [of "''Atlantis''"
      "\<lambda>city key. Some \<lparr>status_code = 404, json = \<lparr>main_temp = 0, main_humidity = 0\<rparr>\<rparr>"
      "\<lparr>api_key = Some ''k''\<rparr>" 10 1200]
  by (simp add: get_weather_data_def drought_score_def py_round_def Let_def)


section \<open>The climate risk engine: risk-adjusted crops\<close>

lemma lower_names:
  "lower ''Millets'' = ''millets''" "lower ''Rice'' = ''rice''" "lower ''Maize'' = ''maize''"
  "lower ''Pulses'' = ''pulses''" "lower ''Cotton'' = ''cotton''" "lower ''Wheat'' = ''wheat''"
  by code_simp+

lemma adjust_fields [simp]:
  "name (adjust rs c) = name c" "confidence (adjust rs c) = confidence c"
  "risk_adjusted_confidence (adjust rs c) =
     Some (max 0 (min 100
       (confidence c + of_int (score_adj (drought_risk rs) (flood_risk rs) (name c)))))"
  by (simp_all add: adjust_def)

lemma adjust_rac_update [simp]:
  "adjust rs (c\<lparr>risk_adjusted_confidence := v\<rparr>) = adjust rs c"
  by (simp add: adjust_def)

lemma adjust_idem [simp]: "adjust rs (adjust rs c) = adjust rs c"
  by (simp add: adjust_def)

lemma set_get_risk_adjusted_crops:
  "set (get_risk_adjusted_crops ps rs) = adjust rs ` set ps"
  by (simp add: get_risk_adjusted_crops_def adjusted_def sorted_reverse_def)

lemma sorted_reverse_id:
  "sorted (map (\<lambda>x. - f x) xs) \<Longrightarrow> sorted_reverse f xs = xs"
  unfolding sorted_reverse_def by (rule sort_key_id_if_sorted)

lemma sorted_reverse_idem: "sorted_reverse f (sorted_reverse f xs) = sorted_reverse f xs"
  by (rule sorted_reverse_id) (rule sorted_sorted_reverse)

lemma map_adjust_fix:
  "set xs \<subseteq> range (adjust rs) \<Longrightarrow> map (adjust rs) xs = xs"
  by (induction xs) auto

lemma score_adj_no_flood:
  "f_risk \<le> 70 \<Longrightarrow> score_adj d_risk f_risk nm \<in> {0, 15, - 20}"
  by (simp add: score_adj_def)

lemma score_adj_low_risk:
  "d_risk \<le> 60 \<Longrightarrow> f_risk \<le> 70 \<Longrightarrow> score_adj d_risk f_risk nm = 0"
  by (simp add: score_adj_def)

text \<open>
  Claim C5. When both thresholds are exceeded (\<open>drought_risk > 60\<close> and
  \<open>flood_risk > 70\<close>), a crop that a drought rule and a flood rule both match (rice, pulses
  or maize, in any letter case) comes out with the flood rule's adjustment alone: +20 for
  rice, -25 for pulses and maize. The drought rule's value is overwritten, not added.
\<close>

theorem flood_rule_overrides:
  assumes "60 < drought_risk rs" and "70 < flood_risk rs"
    and "c \<in> set (get_risk_adjusted_crops predictions rs)"
    and "lower (name c) \<in> set [''rice'', ''pulses'', ''maize'']"
  shows "score_adj (drought_risk rs) (flood_risk rs) (name c)
           = (if lower (name c) = ''rice'' then 20 else - 25)
       \<and> risk_adjusted_confidence c
           = Some (max 0 (min 100
               (confidence c + (if lower (name c) = ''rice'' then 20 else - 25))))"
proof -
  have adj: "score_adj (drought_risk rs) (flood_risk rs) (name c)
           = (if lower (name c) = ''rice'' then 20 else - 25)"
    using assms(1,2,4) by (auto simp add: score_adj_def)
  from assms(3) obtain c0 where c0: "c0 \<in> set predictions" "c = adjust rs c0"
    by (auto simp add: set_get_risk_adjusted_crops)
  have "risk_adjusted_confidence c
      = Some (max 0 (min 100
          (confidence c + of_int (score_adj (drought_risk rs) (flood_risk rs) (name c)))))"
    by (simp add: c0(2))
  with adj show ?thesis by simp
qed

theorem flood_rule_overrides_witness:
  "get_risk_adjusted_crops
     [\<lparr>name = ''Maize'', confidence = 50, risk_adjusted_confidence = None\<rparr>]
     \<lparr>drought_risk = 70, flood_risk = 80, current_temp = 30, current_humidity = 50\<rparr>
   = [\<lparr>name = ''Maize'', confidence = 50, risk_adjusted_confidence = Some 25\<rparr>]
   \<and> score_adj 70 80 ''Maize'' = - 25"
  using flood_rule_overrides
    [of "\<lparr>drought_risk = 70, flood_risk = 80, current_temp = 30, current_humidity = 50\<rparr>"
        "\<lparr>name = ''Maize'', confidence = 50, risk_adjusted_confidence = Some 25\<rparr>"
        "[\<lparr>name = ''Maize'', confidence = 50, risk_adjusted_confidence = None\<rparr>]"]
  by (simp add: get_risk_adjusted_crops_def adjusted_def adjust_def sorted_reverse_def
      score_adj_def lower_names)

text \<open>
  Claim C6 speaks of a crop that receives a drought penalty of -25 at \<open>drought_risk = 70\<close>
  and \<open>flood_risk = 0\<close>. The source has no such penalty: at these risks the drought rule
  gives Rice and Cotton -20, so that a confidence of 5 is lowered to -15 before clamping,
  and the crops that the flood rule penalises by -25 (Pulses, Maize) get +15.
\<close>

theorem drought_penalty_is_20:
  "score_adj 70 0 ''Rice'' = - 20 \<and> score_adj 70 0 ''Cotton'' = - 20
   \<and> score_adj 70 0 ''Maize'' = 15 \<and> score_adj 70 0 ''Pulses'' = 15
   \<and> 5 + real_of_int (score_adj 70 0 ''Rice'') = - 15"
  by (simp add: score_adj_def lower_names)

text \<open>
  Claim C6, amended. With \<open>drought_risk = 70\<close> and \<open>flood_risk = 0\<close>, Millets with
  confidence 60 gets the adjusted confidence 75 and Rice with confidence 80 gets 60. The
  result is clamped: Rice with confidence 5 under the drought penalty, which is -20, gets
  0 and not -15. At these risks every adjustment is 0, +15 or -20; -25 does not occur.
\<close>

theorem drought_adjustment_examples:
  "get_risk_adjusted_crops
     [\<lparr>name = ''Millets'', confidence = 60, risk_adjusted_confidence = None\<rparr>]
     \<lparr>drought_risk = 70, flood_risk = 0, current_temp = 30, current_humidity = 50\<rparr>
   = [\<lparr>name = ''Millets'', confidence = 60, risk_adjusted_confidence = Some 75\<rparr>]
   \<and> get_risk_adjusted_crops
     [\<lparr>name = ''Rice'', confidence = 80, risk_adjusted_confidence = None\<rparr>]
     \<lparr>drought_risk = 70, flood_risk = 0, current_temp = 30, current_humidity = 50\<rparr>
   = [\<lparr>name = ''Rice'', confidence = 80, risk_adjusted_confidence = Some 60\<rparr>]
   \<and> get_risk_adjusted_crops
     [\<lparr>name = ''Rice'', confidence = 5, risk_adjusted_confidence = None\<rparr>]
     \<lparr>drought_risk = 70, flood_risk = 0, current_temp = 30, current_humidity = 50\<rparr>
   = [\<lparr>name = ''Rice'', confidence = 5, risk_adjusted_confidence = Some 0\<rparr>]
   \<and> score_adj 70 0 nm \<in> {0, 15, - 20}"
  using score_adj_no_flood [of 0 70 nm]
  by (simp add: get_risk_adjusted_crops_def adjusted_def adjust_def sorted_reverse_def
      score_adj_def lower_names)

text \<open>
  Claim C7. The adjustment reads the keys \<open>name\<close> and \<open>confidence\<close> only and overwrites
  \<open>risk_adjusted_confidence\<close>. So with the same risk scores, applying it to its own output
  gives that output again; so does a second call on the caller's list, whose dictionaries the
  first call has updated in place; and whatever \<open>risk_adjusted_confidence\<close> the crops carry
  beforehand does not change the result.
\<close>

theorem readjust_same:
  "get_risk_adjusted_crops (get_risk_adjusted_crops ps rs) rs = get_risk_adjusted_crops ps rs
   \<and> get_risk_adjusted_crops (adjusted ps rs) rs = get_risk_adjusted_crops ps rs
   \<and> get_risk_adjusted_crops (map (\<lambda>c. c\<lparr>risk_adjusted_confidence := v c\<rparr>) ps) rs
       = get_risk_adjusted_crops ps rs"
proof -
  let ?out = "get_risk_adjusted_crops ps rs"
  have "set ?out \<subseteq> range (adjust rs)"
    by (auto simp add: set_get_risk_adjusted_crops)
  then have "adjusted ?out rs = ?out"
    unfolding adjusted_def by (rule map_adjust_fix)
  then have 1: "get_risk_adjusted_crops ?out rs = ?out"
    by (simp add: get_risk_adjusted_crops_def [of ?out])
       (simp add: get_risk_adjusted_crops_def sorted_reverse_idem)
  have "adjusted (adjusted ps rs) rs = adjusted ps rs"
    by (simp add: adjusted_def)
  then have 2: "get_risk_adjusted_crops (adjusted ps rs) rs = ?out"
    by (simp add: get_risk_adjusted_crops_def)
  have "adjusted (map (\<lambda>c. c\<lparr>risk_adjusted_confidence := v c\<rparr>) ps) rs = adjusted ps rs"
    by (simp add: adjusted_def)
  then have 3:
    "get_risk_adjusted_crops (map (\<lambda>c. c\<lparr>risk_adjusted_confidence := v c\<rparr>) ps) rs = ?out"
    by (simp add: get_risk_adjusted_crops_def)
  from 1 2 3 show ?thesis by simp
qed

text \<open>
  Claim C10, as stated, fails in its last part: the output is sorted again, so for an input
  list that is not in descending order of confidence the output order differs from the
  input order, also when all confidences are distinct and no risk threshold is exceeded.
\<close>

theorem low_risk_reorders:
  "map name (get_risk_adjusted_crops
     [\<lparr>name = ''Wheat'', confidence = 10, risk_adjusted_confidence = None\<rparr>,
      \<lparr>name = ''Rice'', confidence = 90, risk_adjusted_confidence = None\<rparr>]
     \<lparr>drought_risk = 0, flood_risk = 0, current_temp = 20, current_humidity = 50\<rparr>)
   = [''Rice'', ''Wheat'']"
  by (simp add: get_risk_adjusted_crops_def adjusted_def adjust_def sorted_reverse_def
      score_adj_def lower_names)

text \<open>
  Claim C10, amended. When \<open>drought_risk \<le> 60\<close> and \<open>flood_risk \<le> 70\<close>, every crop's
  \<open>risk_adjusted_confidence\<close> is its confidence clamped to \<open>[0, 100]\<close>, hence the confidence
  itself when that lies in \<open>[0, 100]\<close>. The output keeps the order of the input list exactly
  when the input list is in descending order of clamped confidence; in particular it does
  when the input list is in descending order of confidence.
\<close>

theorem low_risk_identity:
  assumes "drought_risk rs \<le> 60" and "flood_risk rs \<le> 70"
  shows "(\<forall>c\<in>set (get_risk_adjusted_crops predictions rs).
            risk_adjusted_confidence c = Some (max 0 (min 100 (confidence c)))
            \<and> (0 \<le> confidence c \<and> confidence c \<le> 100 \<longrightarrow>
                 risk_adjusted_confidence c = Some (confidence c)))
       \<and> (get_risk_adjusted_crops predictions rs
              = map (\<lambda>c. c\<lparr>risk_adjusted_confidence := Some (max 0 (min 100 (confidence c)))\<rparr>)
                  predictions
            \<longleftrightarrow> sorted_wrt (\<lambda>a b. max 0 (min 100 (confidence b))
                                    \<le> max 0 (min 100 (confidence a))) predictions)
       \<and> (sorted_wrt (\<lambda>a b. confidence b \<le> confidence a) predictions \<longrightarrow>
            get_risk_adjusted_crops predictions rs
              = map (\<lambda>c. c\<lparr>risk_adjusted_confidence := Some (max 0 (min 100 (confidence c)))\<rparr>)
                  predictions)"
proof -
  let ?set = "\<lambda>c :: 'a crop_scheme.
    c\<lparr>risk_adjusted_confidence := Some (max 0 (min 100 (confidence c)))\<rparr>"
  let ?key = "\<lambda>x :: 'a crop_scheme. the (risk_adjusted_confidence x)"
  let ?clamped = "sorted_wrt (\<lambda>a b. max 0 (min 100 (confidence b))
                                    \<le> max 0 (min 100 (confidence a))) predictions"
  have adj: "adjust rs c = ?set c" for c :: "'a crop_scheme"
    using assms by (simp add: adjust_def score_adj_low_risk)
  have a: "adjusted predictions rs = map ?set predictions"
    by (simp add: adjusted_def adj)
  have key: "sorted (map (\<lambda>x. - ?key x) (map ?set predictions)) \<longleftrightarrow> ?clamped"
    by (simp add: sorted_map sorted_wrt_map)
  have 1: "\<forall>c\<in>set (get_risk_adjusted_crops predictions rs).
            risk_adjusted_confidence c = Some (max 0 (min 100 (confidence c)))
            \<and> (0 \<le> confidence c \<and> confidence c \<le> 100 \<longrightarrow>
                 risk_adjusted_confidence c = Some (confidence c))"
    by (auto simp add: set_get_risk_adjusted_crops adj)
  have 2: "get_risk_adjusted_crops predictions rs = map ?set predictions \<longleftrightarrow> ?clamped"
  proof
    assume "get_risk_adjusted_crops predictions rs = map ?set predictions"
    then have "sorted_reverse ?key (map ?set predictions) = map ?set predictions"
      by (simp add: get_risk_adjusted_crops_def a)
    then have "sorted (map (\<lambda>x. - ?key x) (map ?set predictions))"
      using sorted_sorted_reverse [of ?key "map ?set predictions"] by simp
    then show ?clamped by (simp only: key)
  next
    assume ?clamped
    then have "sorted (map (\<lambda>x. - ?key x) (map ?set predictions))"
      by (simp only: key)
    then have "sorted_reverse ?key (map ?set predictions) = map ?set predictions"
      by (rule sorted_reverse_id)
    then show "get_risk_adjusted_crops predictions rs = map ?set predictions"
      by (simp add: get_risk_adjusted_crops_def a)
  qed
  have 3: "get_risk_adjusted_crops predictions rs = map ?set predictions"
    if s: "sorted_wrt (\<lambda>a b. confidence b \<le> confidence a) predictions"
  proof -
    have ?clamped
      using s by (rule sorted_wrt_mono_rel [rotated]) auto
    then show ?thesis by (simp only: 2)
  qed
  from 1 2 3 show ?thesis by blast
qed

theorem low_risk_identity_witness:
  "get_risk_adjusted_crops
     [\<lparr>name = ''Rice'', confidence = 90, risk_adjusted_confidence = None\<rparr>,
      \<lparr>name = ''Maize'', confidence = 90, risk_adjusted_confidence = None\<rparr>,
      \<lparr>name = ''Wheat'', confidence = 10, risk_adjusted_confidence = None\<rparr>]
     \<lparr>drought_risk = 60, flood_risk = 70, current_temp = 20, current_humidity = 50\<rparr>
   = [\<lparr>name = ''Rice'', confidence = 90, risk_adjusted_confidence = Some 90\<rparr>,
      \<lparr>name = ''Maize'', confidence = 90, risk_adjusted_confidence = Some 90\<rparr>,
      \<lparr>name = ''Wheat'', confidence = 10, risk_adjusted_confidence = Some 10\<rparr>]"
  using low_risk_identity
    [of "\<lparr>drought_risk = 60, flood_risk = 70, current_temp = 20, current_humidity = 50\<rparr>"
        "[\<lparr>name = ''Rice'', confidence = 90, risk_adjusted_confidence = None\<rparr>,
          \<lparr>name = ''Maize'', confidence = 90, risk_adjusted_confidence = None\<rparr>,
          \<lparr>name = ''Wheat'', confidence = 10, risk_adjusted_confidence = None\<rparr>]"]
  by simp


section \<open>The classifier path: outcome of the request\<close>













end
